theory Spec2Isabelle
  imports Complex_Main
begin

section \<open>Conventions of the embedding\<close>

text \<open>
  The repository holds two pricing engines: \<^verbatim>\<open>src/jewelry_quote_app_v2/pricing.py\<close>
  (\<^verbatim>\<open>compute_quote_for_metal\<close>, \<^verbatim>\<open>compute_quote_multi\<close>) and \<^verbatim>\<open>src/pricing.py\<close>
  (\<^verbatim>\<open>compute_quote\<close>). Both are embedded below, function by function.

  \<^item> A Python \<^verbatim>\<open>float\<close> is a \<^typ>\<open>real\<close>: sums and products are exact, the rounding
    error of binary floating point is not part of the model. Every concrete input used
    to refute a statement is built from numbers on which the binary arithmetic is exact
    as well (integers, halves, quarters).
  \<^item> A dictionary read with \<^verbatim>\<open>d.get(k, default)\<close> is a record whose field \<open>k\<close> is an
    option: \<open>None\<close> is the absent key (or the value \<^verbatim>\<open>None\<close>).
  \<^item> A dictionary read with \<^verbatim>\<open>d[k]\<close> raises \<^verbatim>\<open>KeyError\<close> on an absent key; where the
    key is a top-level table of the settings the result type is a sum with the error on
    the left.
  \<^item> Strings are byte strings; \<^verbatim>\<open>strip\<close>, \<^verbatim>\<open>upper\<close> and \<^verbatim>\<open>lower\<close> are the ASCII ones.
\<close>

subsection \<open>Strings\<close>

definition is_space :: "char \<Rightarrow> bool" where
  "is_space c = (of_char c \<in> {9 :: nat, 10, 11, 12, 13, 28, 29, 30, 31, 32})"

definition strip :: "string \<Rightarrow> string" where
  "strip s = rev (dropWhile is_space (rev (dropWhile is_space s)))"

definition upper_char :: "char \<Rightarrow> char" where
  "upper_char c =
     (case map_of (zip ''abcdefghijklmnopqrstuvwxyz'' ''ABCDEFGHIJKLMNOPQRSTUVWXYZ'') c of
        None \<Rightarrow> c | Some u \<Rightarrow> u)"

definition lower_char :: "char \<Rightarrow> char" where
  "lower_char c =
     (case map_of (zip ''ABCDEFGHIJKLMNOPQRSTUVWXYZ'' ''abcdefghijklmnopqrstuvwxyz'') c of
        None \<Rightarrow> c | Some l \<Rightarrow> l)"

definition upper :: "string \<Rightarrow> string" where
  "upper s = map upper_char s"

definition lower :: "string \<Rightarrow> string" where
  "lower s = map lower_char s"

definition startswith :: "string \<Rightarrow> string \<Rightarrow> bool" where
  "startswith s p = (take (length p) s = p)"

subsection \<open>Numbers\<close>

text \<open>
  Python's \<^verbatim>\<open>round(x)\<close> rounds to the nearest integer and a tie to the even neighbour.
\<close>

definition py_round :: "real \<Rightarrow> int" where
  "py_round x =
     (let f = \<lfloor>x\<rfloor>; d = x - of_int f
      in if d < 1 / 2 then f
         else if 1 / 2 < d then f + 1
         else if even f then f else f + 1)"

text \<open>
  The builtin \<^verbatim>\<open>sum\<close> adds from the left, starting at \<open>0\<close>; so does an accumulator
  updated with \<^verbatim>\<open>+=\<close>.
\<close>

definition py_sum :: "real list \<Rightarrow> real" where
  "py_sum xs = foldl (+) 0 xs"

text \<open>\<^verbatim>\<open>float(d.get(k, 0.0) or 0.0)\<close>, \<^verbatim>\<open>int(d.get(k, 0) or 0)\<close>, \<^verbatim>\<open>bool(d.get(k, default))\<close>.\<close>

definition float_or0 :: "real option \<Rightarrow> real" where
  "float_or0 v = (case v of None \<Rightarrow> 0 | Some x \<Rightarrow> x)"

definition int_or0 :: "int option \<Rightarrow> int" where
  "int_or0 v = (case v of None \<Rightarrow> 0 | Some n \<Rightarrow> n)"

definition bool_get :: "bool option \<Rightarrow> bool \<Rightarrow> bool" where
  "bool_get v dflt = (case v of None \<Rightarrow> dflt | Some b \<Rightarrow> b)"

definition str_or_empty :: "string option \<Rightarrow> string" where
  "str_or_empty v = (case v of None \<Rightarrow> [] | Some s \<Rightarrow> s)"

section \<open>The per-metal engine: \<^verbatim>\<open>src/jewelry_quote_app_v2/pricing.py\<close>\<close>

subsection \<open>Data\<close>

record settings =
  tax_rate :: "real option"
  deposit_rate :: "real option"
  rounding :: "string option"
  metals_retail_per_dwt :: "string \<rightharpoonup> real"
  platinum_density_ratio :: "real option"
  platinum_extra_fee :: "real option"

record trim_stone_row =
  ts_desc :: "string option"
  ts_qty :: "int option"
  ts_price_each :: "real option"

record trim_setting_row =
  tl_desc :: "string option"
  tl_qty :: "int option"
  tl_rate :: "real option"

record quote_core =
  cad_fee :: "real option"
  tax_cad :: "bool option"
  metal_weight_value :: "real option"
  metal_weight_unit :: "string option"
  add_platinum_extra_fee :: "bool option"
  tax_metal :: "bool option"
  center_stone_desc :: "string option"
  center_stone_price :: "real option"
  tax_center_stone :: "bool option"
  center_stone_customer_supplied :: "bool option"
  trim_stones :: "trim_stone_row list"
  tax_trim_stones :: "bool option"
  center_setting_labor :: "real option"
  tax_labor :: "bool option"
  trim_setting_lines :: "trim_setting_row list"
  trim_setting_qty :: "int option"
  trim_setting_rate :: "real option"
  appraisal :: "real option"
  tax_appraisal :: "bool option"
  engraving :: "real option"
  tax_engraving :: "bool option"
  shipping :: "real option"
  tax_shipping :: "bool option"
  rhodium :: "real option"
  tax_rhodium :: "bool option"

text \<open>
  The \<^verbatim>\<open>meta\<close> entry of a line item is either the metal audit data (input weight value,
  input weight unit, computed pennyweight, rate per pennyweight) or the customer-supplied
  flag of the centre stone. A \<^verbatim>\<open>details\<close> row is \<open>(desc, qty, price_each or rate, amount)\<close>.
\<close>

datatype meta = MetalMeta real string real real | CenterMeta bool

datatype detail = TrimDetail string int real real | LaborDetail string int real real

record line_item =
  label :: string
  amount :: real
  taxable :: bool
  kind :: string
  meta :: "meta option"
  details :: "detail list option"

record quote =
  q_metal_key :: string
  line_items :: "line_item list"
  subtotal_pre_tax :: real
  rounded_subtotal_pre_tax :: real
  taxable_subtotal_pre_tax :: real
  q_tax_rate :: real
  tax :: real
  total_with_tax :: real
  q_deposit_rate :: real
  deposit :: real
  rounding_rule :: string

record quote_multi =
  options :: "quote list"

subsection \<open>Rounding and weight conversion\<close>

definition GRAMS_TO_DWT :: real where
  "GRAMS_TO_DWT = 643 / 1000"

definition round_nearest_5 :: "real \<Rightarrow> real" where
  "round_nearest_5 x = of_int (py_round (x / 5)) * 5"

definition round_money :: "real \<Rightarrow> string \<Rightarrow> real" where
  "round_money x rule0 =
     (let rule = lower (strip (if rule0 = [] then ''none'' else rule0))
      in if rule = ''nearest_dollar'' then of_int (py_round x)
         else if rule = ''nearest_5'' then round_nearest_5 x
         else x)"

definition weight_to_dwt :: "real \<Rightarrow> string \<Rightarrow> real" where
  "weight_to_dwt weight_value unit0 =
     (let unit = strip (if unit0 = [] then ''DWT'' else unit0)
      in if startswith (lower unit) ''gram'' then weight_value * GRAMS_TO_DWT
         else weight_value)"

subsection \<open>Line-item assembly\<close>

text \<open>
  Each block of \<^verbatim>\<open>compute_quote_for_metal\<close> appends at most one item to \<^verbatim>\<open>line_items\<close>;
  each definition below is the list that its block appends.
\<close>

definition cad_items :: "quote_core \<Rightarrow> line_item list" where
  "cad_items qc =
     (let fee = float_or0 (cad_fee qc)
      in if 0 < fee
         then [\<lparr>label = ''CAD / design fee'', amount = fee,
                taxable = bool_get (tax_cad qc) True, kind = ''cad'',
                meta = None, details = None\<rparr>]
         else [])"

definition is_plat :: "string \<Rightarrow> bool" where
  "is_plat metal_key = startswith (upper metal_key) ''PLAT''"

definition metal_items :: "settings \<Rightarrow> quote_core \<Rightarrow> string \<Rightarrow> line_item list" where
  "metal_items st qc metal_key =
     (let weight_value = float_or0 (metal_weight_value qc);
          weight_unit = (case metal_weight_unit qc of None \<Rightarrow> ''DWT'' | Some u \<Rightarrow> u);
          base_dwt = weight_to_dwt weight_value weight_unit
      in if 0 < base_dwt
         then
           (let rate = float_or0 (metals_retail_per_dwt st metal_key);
                dwt = (if is_plat metal_key
                       then base_dwt *
                            (let r = float_or0 (platinum_density_ratio st)
                             in if r = 0 then 1 else r)
                       else base_dwt);
                metal_amt0 = dwt * rate;
                metal_amt = (if is_plat metal_key \<and> bool_get (add_platinum_extra_fee qc) True
                             then metal_amt0 + float_or0 (platinum_extra_fee st)
                             else metal_amt0)
            in [\<lparr>label = ''Metal ('' @ metal_key @ '')'', amount = metal_amt,
                  taxable = bool_get (tax_metal qc) True, kind = ''metal'',
                  meta = Some (MetalMeta weight_value weight_unit dwt rate),
                  details = None\<rparr>])
         else [])"

definition center_items :: "quote_core \<Rightarrow> line_item list" where
  "center_items qc =
     (let center_desc = strip (str_or_empty (center_stone_desc qc));
          center_price = float_or0 (center_stone_price qc)
      in if center_desc \<noteq> [] \<or> 0 < center_price
         then [\<lparr>label = (if center_desc \<noteq> [] then strip (''Center stone: '' @ center_desc)
                         else ''Center stone''),
                amount = center_price,
                taxable = bool_get (tax_center_stone qc) True, kind = ''center_stone'',
                meta = Some (CenterMeta (bool_get (center_stone_customer_supplied qc) False)),
                details = None\<rparr>]
         else [])"

text \<open>The loop over \<^verbatim>\<open>trim_lines\<close>: the state is \<^verbatim>\<open>(trim_total, trim_details)\<close>.\<close>

fun trim_loop :: "trim_stone_row list \<Rightarrow> real \<times> detail list \<Rightarrow> real \<times> detail list" where
  "trim_loop [] acc = acc"
| "trim_loop (row # rows) (trim_total, trim_details) =
     (let desc = strip (str_or_empty (ts_desc row));
          qty = int_or0 (ts_qty row);
          each = float_or0 (ts_price_each row)
      in if qty \<le> 0 \<or> each \<le> 0 then trim_loop rows (trim_total, trim_details)
         else (let amt = of_int qty * each
               in trim_loop rows
                    (trim_total + amt, trim_details @ [TrimDetail desc qty each amt])))"

definition trim_items :: "quote_core \<Rightarrow> line_item list" where
  "trim_items qc =
     (let (trim_total, trim_details) = trim_loop (trim_stones qc) (0, [])
      in if 0 < trim_total
         then [\<lparr>label = ''Trim stones'', amount = trim_total,
                taxable = bool_get (tax_trim_stones qc) True, kind = ''trim_stones'',
                meta = None, details = Some trim_details\<rparr>]
         else [])"

definition center_labor_items :: "quote_core \<Rightarrow> line_item list" where
  "center_labor_items qc =
     (let labor = float_or0 (center_setting_labor qc)
      in if 0 < labor
         then [\<lparr>label = ''Setting labor (center)'', amount = labor,
                taxable = bool_get (tax_labor qc) True, kind = ''labor_center_setting'',
                meta = None, details = None\<rparr>]
         else [])"

fun trim_setting_loop ::
  "trim_setting_row list \<Rightarrow> real \<times> detail list \<Rightarrow> real \<times> detail list" where
  "trim_setting_loop [] acc = acc"
| "trim_setting_loop (row # rows) (trim_setting_total, dets) =
     (let desc = strip (str_or_empty (tl_desc row));
          qty = int_or0 (tl_qty row);
          rate = float_or0 (tl_rate row)
      in if qty \<le> 0 \<or> rate \<le> 0 then trim_setting_loop rows (trim_setting_total, dets)
         else (let amt = of_int qty * rate
               in trim_setting_loop rows
                    (trim_setting_total + amt, dets @ [LaborDetail desc qty rate amt])))"

definition trim_labor_items :: "quote_core \<Rightarrow> line_item list" where
  "trim_labor_items qc =
     (let legacy_qty = int_or0 (trim_setting_qty qc);
          legacy_rate = float_or0 (trim_setting_rate qc);
          lines = (if trim_setting_lines qc = [] \<and> 0 < legacy_qty \<and> 0 < legacy_rate
                   then [\<lparr>tl_desc = Some [], tl_qty = Some legacy_qty,
                          tl_rate = Some legacy_rate\<rparr>]
                   else trim_setting_lines qc);
          (trim_setting_total, dets) = trim_setting_loop lines (0, [])
      in if 0 < trim_setting_total
         then [\<lparr>label = ''Setting labor (trim)'', amount = trim_setting_total,
                taxable = bool_get (tax_labor qc) True, kind = ''labor_trim_setting'',
                meta = None, details = Some dets\<rparr>]
         else [])"

text \<open>
  \<^verbatim>\<open>_add_charge(key, label, default_taxable)\<close> reads \<^verbatim>\<open>quote_core[key]\<close> and
  \<^verbatim>\<open>quote_core["tax_" + key]\<close>; the two reads are its second and third argument here.
\<close>

definition add_charge :: "string \<Rightarrow> real option \<Rightarrow> bool option \<Rightarrow> string \<Rightarrow> bool \<Rightarrow> line_item list" where
  "add_charge key v tx lbl default_taxable =
     (let val = float_or0 v
      in if 0 < val
         then [\<lparr>label = lbl, amount = val, taxable = bool_get tx default_taxable,
                kind = key, meta = None, details = None\<rparr>]
         else [])"

definition charge_items :: "quote_core \<Rightarrow> line_item list" where
  "charge_items qc =
     add_charge ''appraisal'' (appraisal qc) (tax_appraisal qc)
       ''Appraisal (outside components)'' True
     @ add_charge ''engraving'' (engraving qc) (tax_engraving qc) ''Engraving'' True
     @ add_charge ''shipping'' (shipping qc) (tax_shipping qc) ''Shipping'' False
     @ add_charge ''rhodium'' (rhodium qc) (tax_rhodium qc) ''Rhodium plating'' True"

definition assemble :: "settings \<Rightarrow> quote_core \<Rightarrow> string \<Rightarrow> line_item list" where
  "assemble st qc metal_key =
     cad_items qc @ metal_items st qc metal_key @ center_items qc @ trim_items qc
     @ center_labor_items qc @ trim_labor_items qc @ charge_items qc"

subsection \<open>Totals\<close>

definition compute_quote_for_metal :: "settings \<Rightarrow> quote_core \<Rightarrow> string \<Rightarrow> quote" where
  "compute_quote_for_metal st qc metal_key =
     (let items = assemble st qc metal_key;
          tax_rate_v = float_or0 (tax_rate st);
          deposit_rate_v = (case deposit_rate st of None \<Rightarrow> 1 / 2 | Some d \<Rightarrow> d);
          rounding_v = (case rounding st of None \<Rightarrow> ''none'' | Some r \<Rightarrow> r);
          subtotal = py_sum (map amount items);
          taxable_subtotal = py_sum (map amount (filter taxable items));
          tax_v = taxable_subtotal * tax_rate_v
      in \<lparr>q_metal_key = metal_key,
          line_items = items,
          subtotal_pre_tax = subtotal,
          rounded_subtotal_pre_tax = round_money subtotal rounding_v,
          taxable_subtotal_pre_tax = taxable_subtotal,
          q_tax_rate = tax_rate_v,
          tax = tax_v,
          total_with_tax = subtotal + tax_v,
          q_deposit_rate = deposit_rate_v,
          deposit = subtotal * deposit_rate_v,
          rounding_rule = rounding_v\<rparr>)"

text \<open>The loop of \<^verbatim>\<open>compute_quote_multi\<close>: the state is the list \<^verbatim>\<open>options\<close>.\<close>

fun multi_loop :: "settings \<Rightarrow> quote_core \<Rightarrow> string list \<Rightarrow> quote list \<Rightarrow> quote list" where
  "multi_loop st qc [] opts = opts"
| "multi_loop st qc (mk # mks) opts =
     multi_loop st qc mks (opts @ [compute_quote_for_metal st qc mk])"

definition compute_quote_multi :: "settings \<Rightarrow> quote_core \<Rightarrow> string list \<Rightarrow> quote_multi" where
  "compute_quote_multi st qc metal_keys = \<lparr>options = multi_loop st qc metal_keys []\<rparr>"

section \<open>The size-table engine: \<^verbatim>\<open>src/pricing.py\<close>\<close>

subsection \<open>Data\<close>

datatype py_error = KeyError string

record fees_tbl =
  platinum_casting_fee :: "real option"
  rhodium_fee :: "real option"
  polishing_fee :: "real option"
  engraving_fee :: "real option"
  shipping_fee :: "real option"

record trim_table_row =
  tr_mm :: real
  tr_ct_each :: real
  tr_retail_per_ct :: real

record labor_rates_tbl =
  round_center :: "string \<rightharpoonup> real"
  fancy_center :: "string \<rightharpoonup> real"
  round_trim :: "string \<rightharpoonup> real"
  fancy_trim :: "string \<rightharpoonup> real"

text \<open>
  The tables read with \<^verbatim>\<open>settings[...]\<close> are optional fields: reading an absent one
  raises \<^verbatim>\<open>KeyError\<close>. Inside a table that is present every key the code reads with
  \<^verbatim>\<open>[...]\<close> is there: the four labour buckets, and \<^verbatim>\<open>mm\<close>, \<^verbatim>\<open>ct_each\<close> and
  \<^verbatim>\<open>retail_per_ct\<close> in every row of the size table.
\<close>

record settings2 =
  s2_rounding :: "string option"
  s2_metals :: "(string \<rightharpoonup> real) option"
  s2_fees :: "fees_tbl option"
  s2_trim_table :: "trim_table_row list option"
  s2_labor_rates :: "labor_rates_tbl option"
  s2_tax_rate :: "real option"
  s2_deposit_rate :: "real option"

record center =
  c_type :: "string option"
  c_ct :: "real option"
  c_price_per_ct :: "real option"
  c_cost :: "real option"
  c_markup :: "real option"
  c_label :: "string option"
  c_price :: "real option"
  c_taxable :: "bool option"

text \<open>
  A trim item carries \<^verbatim>\<open>mm\<close> and \<^verbatim>\<open>retail_per_ct_override\<close> (read with \<^verbatim>\<open>item[...]\<close>;
  the override may be \<^verbatim>\<open>None\<close>) and \<^verbatim>\<open>qty\<close> (read with \<^verbatim>\<open>get\<close>).
\<close>

record trim_item =
  ti_mm :: real
  ti_qty :: "int option"
  ti_retail_per_ct_override :: "real option"

record trim =
  t_enabled :: "bool option"
  t_items :: "trim_item list"

record labor =
  lb_center_setting_style :: "string option"
  lb_center_setting_qty :: "int option"
  lb_trim_setting_style :: "string option"
  lb_trim_setting_qty :: "int option"

record misc =
  m_rhodium :: "bool option"
  m_polishing :: "bool option"
  m_engraving :: "bool option"
  m_shipping :: "bool option"
  m_amount :: "real option"
  m_description :: "string option"
  m_taxable :: "bool option"

text \<open>
  Three labels of \<^verbatim>\<open>compute_quote\<close> are format strings over two numbers; the label keeps
  the two numbers and leaves the number formatting out. \<open>CenterLab ct price_per_ct\<close> is
  \<^verbatim>\<open>"Center stone (lab) {ct:.2f}ct @ ${price_per_ct:,.0f}/ct"\<close>, and \<open>CenterNatural cost markup\<close>,
  \<open>CenterColored cost markup\<close> are \<^verbatim>\<open>"Center stone (natural) cost ${cost:,.0f} x {markup:.2f}"\<close>
  and its \<^verbatim>\<open>(colored)\<close> twin.
\<close>

datatype label2 = Text string | CenterLab real real | CenterNatural real real
  | CenterColored real real

text \<open>
  Some items of \<^verbatim>\<open>compute_quote\<close> have no \<^verbatim>\<open>taxable\<close> key: the field is an option.
  A \<^verbatim>\<open>details\<close> row is the tuple \<^verbatim>\<open>(mm, qty, total_ct, retail_per_ct, price)\<close>.
\<close>

record line_item2 =
  label2 :: label2
  amount2 :: real
  taxable2 :: "bool option"
  details2 :: "(real \<times> int \<times> real \<times> real \<times> real) list option"

text \<open>
  The result of \<^verbatim>\<open>compute_quote\<close>, without the header strings that it copies from its
  arguments and without the expiry date.
\<close>

record quote2 =
  q2_line_items :: "line_item2 list"
  q2_subtotal :: real
  q2_tax :: real
  q2_total :: real
  q2_deposit :: real
  q2_tax_rate :: real
  q2_deposit_rate :: real
  q2_raw_total :: real

subsection \<open>Lookups and rounding\<close>

fun trim_row_for_mm :: "trim_table_row list \<Rightarrow> real \<Rightarrow> trim_table_row option" where
  "trim_row_for_mm [] mm = None"
| "trim_row_for_mm (r # rs) mm = (if tr_mm r = mm then Some r else trim_row_for_mm rs mm)"

definition round_money2 :: "settings2 \<Rightarrow> real \<Rightarrow> real" where
  "round_money2 st x =
     (let rule = (case s2_rounding st of None \<Rightarrow> ''nearest_dollar'' | Some r \<Rightarrow> r)
      in if rule = ''nearest_dollar'' then of_int (py_round x) else x)"

definition round_to_5 :: "real \<Rightarrow> real" where
  "round_to_5 x = of_int (py_round (x / 5)) * 5"

definition rate_for_style :: "labor_rates_tbl \<Rightarrow> string \<Rightarrow> real" where
  "rate_for_style lr style =
     (case round_center lr style of Some v \<Rightarrow> v | None \<Rightarrow>
      (case fancy_center lr style of Some v \<Rightarrow> v | None \<Rightarrow>
       (case round_trim lr style of Some v \<Rightarrow> v | None \<Rightarrow>
        (case fancy_trim lr style of Some v \<Rightarrow> v | None \<Rightarrow> 0))))"

subsection \<open>Line-item assembly\<close>

definition item2 :: "label2 \<Rightarrow> real \<Rightarrow> bool option \<Rightarrow> line_item2" where
  "item2 l a t = \<lparr>label2 = l, amount2 = a, taxable2 = t, details2 = None\<rparr>"

definition cad2_items :: "settings2 \<Rightarrow> real \<Rightarrow> line_item2 list" where
  "cad2_items st fee =
     (if 0 < fee then [item2 (Text ''CAD / design fee'') (round_money2 st fee) (Some True)]
      else [])"

definition metal2_items ::
  "settings2 \<Rightarrow> string \<Rightarrow> real \<Rightarrow> string \<Rightarrow> bool \<Rightarrow> py_error + line_item2 list" where
  "metal2_items st metal_type weight_value weight_unit add_platinum_casting =
     (if weight_value \<noteq> 0 \<and> 0 < weight_value
      then
        (let dwt = (if weight_unit = ''Grams'' then weight_value * (643 / 1000)
                    else weight_value)
         in case s2_metals st of
              None \<Rightarrow> Inl (KeyError ''metals'')
            | Some metals \<Rightarrow>
               (case metals metal_type of
                  None \<Rightarrow> Inl (KeyError metal_type)
                | Some cost_per_dwt \<Rightarrow>
                   (let metal_amount = cost_per_dwt * dwt;
                        lbl = Text (''Metal ('' @ metal_type @ '')'')
                    in if add_platinum_casting \<and> is_plat metal_type
                       then (case s2_fees st of
                               None \<Rightarrow> Inl (KeyError ''fees'')
                             | Some fees \<Rightarrow>
                                 Inr [item2 lbl
                                        (round_money2 st
                                           (metal_amount + float_or0 (platinum_casting_fee fees)))
                                        (Some True)])
                       else Inr [item2 lbl (round_money2 st metal_amount) (Some True)])))
      else Inr [])"

definition center2_items :: "settings2 \<Rightarrow> center \<Rightarrow> line_item2 list" where
  "center2_items st c =
     (let ctype = (case c_type c of None \<Rightarrow> ''None'' | Some t \<Rightarrow> t)
      in if ctype = ''Lab diamond (price/ct by range)''
         then (let ct = float_or0 (c_ct c);
                   price_per_ct = float_or0 (c_price_per_ct c);
                   center_amount = ct * price_per_ct
               in if 0 < center_amount
                  then [item2 (CenterLab ct price_per_ct) (round_money2 st center_amount) None]
                  else [])
         else if ctype = ''Natural diamond (cost x markup)''
         then (let cost = float_or0 (c_cost c);
                   markup = float_or0 (c_markup c);
                   center_amount = cost * markup
               in if 0 < center_amount
                  then [item2 (CenterNatural cost markup) (round_money2 st center_amount) None]
                  else [])
         else if ctype = ''Colored / calibrated (cost x markup)''
         then (let cost = float_or0 (c_cost c);
                   markup = float_or0 (c_markup c);
                   center_amount = cost * markup
               in if 0 < center_amount
                  then [item2 (CenterColored cost markup) (round_money2 st center_amount) None]
                  else [])
         else if ctype = ''Custom line item''
         then (let lbl = (case c_label c of None \<Rightarrow> ''Center stone'' | Some l \<Rightarrow> l);
                   price = float_or0 (c_price c)
               in if 0 < price
                  then [item2 (Text lbl) (round_money2 st price)
                          (Some (bool_get (c_taxable c) True))]
                  else [])
         else [])"

text \<open>
  The loop over \<^verbatim>\<open>trim["items"]\<close>: the state is \<^verbatim>\<open>(trim_total, trim_details)\<close>. The size
  table is read (\<^verbatim>\<open>settings["trim_table"]\<close>) only for an item of positive quantity.
\<close>

fun trim2_loop ::
  "settings2 \<Rightarrow> trim_item list \<Rightarrow> real \<times> (real \<times> int \<times> real \<times> real \<times> real) list
     \<Rightarrow> py_error + real \<times> (real \<times> int \<times> real \<times> real \<times> real) list" where
  "trim2_loop st [] acc = Inr acc"
| "trim2_loop st (item # rest) (trim_total, trim_details) =
     (let mm = ti_mm item; qty = int_or0 (ti_qty item)
      in if qty \<le> 0 then trim2_loop st rest (trim_total, trim_details)
         else (case s2_trim_table st of
                 None \<Rightarrow> Inl (KeyError ''trim_table'')
               | Some tbl \<Rightarrow>
                  (case trim_row_for_mm tbl mm of
                     None \<Rightarrow> trim2_loop st rest (trim_total, trim_details)
                   | Some row \<Rightarrow>
                      (let ct_each = tr_ct_each row;
                           ov = float_or0 (ti_retail_per_ct_override item);
                           retail_per_ct = (if ov \<noteq> 0 then ov else tr_retail_per_ct row);
                           total_ct = ct_each * of_int qty;
                           price = total_ct * retail_per_ct
                       in trim2_loop st rest
                            (trim_total + price,
                             trim_details @ [(mm, qty, total_ct, retail_per_ct, price)])))))"

definition trim2_items :: "settings2 \<Rightarrow> trim \<Rightarrow> py_error + line_item2 list" where
  "trim2_items st t =
     (if bool_get (t_enabled t) False \<and> t_items t \<noteq> []
      then (case trim2_loop st (t_items t) (0, []) of
              Inl e \<Rightarrow> Inl e
            | Inr (trim_total, trim_details) \<Rightarrow>
                if 0 < trim_total
                then Inr [\<lparr>label2 = Text ''Trim stones'',
                           amount2 = round_money2 st trim_total,
                           taxable2 = Some True, details2 = Some trim_details\<rparr>]
                else Inr [])
      else Inr [])"

definition style_items ::
  "settings2 \<Rightarrow> labor_rates_tbl \<Rightarrow> string \<Rightarrow> string option \<Rightarrow> int option \<Rightarrow> line_item2 list" where
  "style_items st lr prefix style0 qty0 =
     (let style = (case style0 of None \<Rightarrow> ''None'' | Some s \<Rightarrow> s)
      in if style \<noteq> [] \<and> style \<noteq> ''None''
         then (let qty = int_or0 qty0;
                   rate = rate_for_style lr style;
                   amt = rate * of_int qty
               in if 0 < amt
                  then [item2 (Text (prefix @ style @ '')'')) (round_money2 st amt) (Some True)]
                  else [])
         else [])"

definition labor2_items :: "settings2 \<Rightarrow> labor \<Rightarrow> py_error + line_item2 list" where
  "labor2_items st lb =
     (case s2_labor_rates st of
        None \<Rightarrow> Inl (KeyError ''labor_rates'')
      | Some lr \<Rightarrow>
          Inr (style_items st lr ''Set center stone ('' (lb_center_setting_style lb)
                 (lb_center_setting_qty lb)
               @ style_items st lr ''Set trim stones ('' (lb_trim_setting_style lb)
                   (lb_trim_setting_qty lb)))"

definition fee_items ::
  "settings2 \<Rightarrow> bool option \<Rightarrow> string \<Rightarrow> real option \<Rightarrow> line_item2 list" where
  "fee_items st flag lbl fee =
     (if bool_get flag False
      then [item2 (Text lbl) (round_money2 st (float_or0 fee)) (Some True)]
      else [])"

definition misc2_items :: "settings2 \<Rightarrow> misc \<Rightarrow> py_error + line_item2 list" where
  "misc2_items st m =
     (case s2_fees st of
        None \<Rightarrow> Inl (KeyError ''fees'')
      | Some fees \<Rightarrow>
          Inr (fee_items st (m_rhodium m) ''Rhodium'' (rhodium_fee fees)
               @ fee_items st (m_polishing m) ''Polishing / finishing'' (polishing_fee fees)
               @ fee_items st (m_engraving m) ''Engraving'' (engraving_fee fees)
               @ fee_items st (m_shipping m) ''Shipping'' (shipping_fee fees)
               @ (let misc_amount = float_or0 (m_amount m);
                      misc_desc = strip (str_or_empty (m_description m))
                  in if 0 < misc_amount
                     then [item2 (Text (if misc_desc \<noteq> [] then ''Misc.: '' @ misc_desc
                                        else ''Misc.''))
                             (round_money2 st misc_amount)
                             (Some (bool_get (m_taxable m) True))]
                     else [])))"

definition assemble2 ::
  "settings2 \<Rightarrow> real \<Rightarrow> string \<Rightarrow> real \<Rightarrow> string \<Rightarrow> bool \<Rightarrow> center \<Rightarrow> trim \<Rightarrow> labor \<Rightarrow> misc
     \<Rightarrow> py_error + line_item2 list" where
  "assemble2 st fee metal_type weight_value weight_unit add_platinum_casting c t lb m =
     (case metal2_items st metal_type weight_value weight_unit add_platinum_casting of
        Inl e \<Rightarrow> Inl e
      | Inr metal \<Rightarrow>
         (case trim2_items st t of
            Inl e \<Rightarrow> Inl e
          | Inr trimmed \<Rightarrow>
             (case labor2_items st lb of
                Inl e \<Rightarrow> Inl e
              | Inr labored \<Rightarrow>
                 (case misc2_items st m of
                    Inl e \<Rightarrow> Inl e
                  | Inr finishing \<Rightarrow>
                      Inr (cad2_items st fee @ metal @ center2_items st c @ trimmed
                           @ labored @ finishing)))))"

subsection \<open>Totals\<close>

definition totals2 :: "settings2 \<Rightarrow> line_item2 list \<Rightarrow> quote2" where
  "totals2 st items =
     (let subtotal = py_sum (map amount2 items);
          tax_rate_v = float_or0 (s2_tax_rate st);
          deposit_rate_v = (case s2_deposit_rate st of None \<Rightarrow> 1 / 2 | Some d \<Rightarrow> d);
          tax_v = round_money2 st (subtotal * tax_rate_v);
          raw_total = subtotal + tax_v;
          total = round_to_5 raw_total
      in \<lparr>q2_line_items = items,
          q2_subtotal = subtotal,
          q2_tax = tax_v,
          q2_total = total,
          q2_deposit = round_to_5 (total * deposit_rate_v),
          q2_tax_rate = tax_rate_v,
          q2_deposit_rate = deposit_rate_v,
          q2_raw_total = raw_total\<rparr>)"

definition compute_quote ::
  "settings2 \<Rightarrow> real \<Rightarrow> string \<Rightarrow> real \<Rightarrow> string \<Rightarrow> bool \<Rightarrow> center \<Rightarrow> trim \<Rightarrow> labor \<Rightarrow> misc
     \<Rightarrow> py_error + quote2" where
  "compute_quote st fee metal_type weight_value weight_unit add_platinum_casting c t lb m =
     (case assemble2 st fee metal_type weight_value weight_unit add_platinum_casting c t lb m of
        Inl e \<Rightarrow> Inl e
      | Inr items \<Rightarrow> Inr (totals2 st items))"

section \<open>Concrete inputs\<close>

text \<open>A job with every field absent, and settings with nothing configured.\<close>

definition empty_core :: quote_core where
  "empty_core =
     \<lparr>cad_fee = None, tax_cad = None, metal_weight_value = None, metal_weight_unit = None,
      add_platinum_extra_fee = None, tax_metal = None, center_stone_desc = None,
      center_stone_price = None, tax_center_stone = None,
      center_stone_customer_supplied = None, trim_stones = [], tax_trim_stones = None,
      center_setting_labor = None, tax_labor = None, trim_setting_lines = [],
      trim_setting_qty = None, trim_setting_rate = None, appraisal = None,
      tax_appraisal = None, engraving = None, tax_engraving = None, shipping = None,
      tax_shipping = None, rhodium = None, tax_rhodium = None\<rparr>"

definition shop_settings :: settings where
  "shop_settings =
     \<lparr>tax_rate = Some (7 / 100), deposit_rate = Some (1 / 2), rounding = Some ''none'',
      metals_retail_per_dwt = [''14K Yellow'' \<mapsto> 120, ''Platinum'' \<mapsto> 200],
      platinum_density_ratio = Some (138 / 100), platinum_extra_fee = Some 50\<rparr>"

text \<open>CAD fee 150 and 10 pennyweight of metal, everything taxable.\<close>

definition cad_metal_core :: quote_core where
  "cad_metal_core =
     empty_core\<lparr>cad_fee := Some 150, metal_weight_value := Some 10,
                metal_weight_unit := Some ''DWT''\<rparr>"

definition named_free_stone_core :: quote_core where
  "named_free_stone_core =
     empty_core\<lparr>center_stone_desc := Some ''Ruby'', center_stone_price := Some 0,
                tax_center_stone := Some False\<rparr>"

definition credit_stone_core :: quote_core where
  "credit_stone_core =
     empty_core\<lparr>cad_fee := Some 150, center_stone_desc := Some ''Ruby'',
                center_stone_price := Some (- 100), tax_center_stone := Some False\<rparr>"

text \<open>The two trim lines of the fourth end-to-end scenario.\<close>

definition two_trim_core :: quote_core where
  "two_trim_core =
     empty_core\<lparr>trim_stones :=
       [\<lparr>ts_desc = Some ''melee'', ts_qty = Some 3, ts_price_each = Some 40\<rparr>,
        \<lparr>ts_desc = Some ''accent'', ts_qty = Some 0, ts_price_each = Some 999\<rparr>]\<rparr>"

text \<open>Inputs of \<^verbatim>\<open>compute_quote\<close>.\<close>

definition no_fees :: fees_tbl where
  "no_fees = \<lparr>platinum_casting_fee = None, rhodium_fee = None, polishing_fee = None,
              engraving_fee = None, shipping_fee = None\<rparr>"

definition no_labor_rates :: labor_rates_tbl where
  "no_labor_rates = \<lparr>round_center = Map.empty, fancy_center = Map.empty,
                     round_trim = Map.empty, fancy_trim = Map.empty\<rparr>"

definition shop_settings2 :: settings2 where
  "shop_settings2 =
     \<lparr>s2_rounding = None, s2_metals = Some [''14K Yellow'' \<mapsto> 120],
      s2_fees = Some no_fees,
      s2_trim_table = Some [\<lparr>tr_mm = 2, tr_ct_each = 1 / 2, tr_retail_per_ct = 3\<rparr>],
      s2_labor_rates = Some no_labor_rates,
      s2_tax_rate = Some (1 / 4), s2_deposit_rate = Some (1 / 2)\<rparr>"

definition no_center :: center where
  "no_center = \<lparr>c_type = None, c_ct = None, c_price_per_ct = None, c_cost = None,
                c_markup = None, c_label = None, c_price = None, c_taxable = None\<rparr>"

definition free_ruby :: center where
  "free_ruby = no_center\<lparr>c_type := Some ''Custom line item'', c_label := Some ''Ruby'',
                         c_price := Some 0\<rparr>"

definition no_trim :: trim where
  "no_trim = \<lparr>t_enabled = None, t_items = []\<rparr>"

definition one_trim :: trim where
  "one_trim = \<lparr>t_enabled = Some True,
               t_items = [\<lparr>ti_mm = 2, ti_qty = Some 1, ti_retail_per_ct_override = None\<rparr>]\<rparr>"

definition no_labor :: labor where
  "no_labor = \<lparr>lb_center_setting_style = None, lb_center_setting_qty = None,
               lb_trim_setting_style = None, lb_trim_setting_qty = None\<rparr>"

definition no_misc :: misc where
  "no_misc = \<lparr>m_rhodium = None, m_polishing = None, m_engraving = None, m_shipping = None,
              m_amount = None, m_description = None, m_taxable = None\<rparr>"

section \<open>The quantities the specification speaks of\<close>

text \<open>
  The taxable subtotal of a list of items: the sum of the amounts of the items whose
  taxable flag is true. An item of \<^verbatim>\<open>compute_quote\<close> without the flag has no true flag.
\<close>

definition taxable_sum :: "line_item list \<Rightarrow> real" where
  "taxable_sum items = sum_list (map amount (filter taxable items))"

definition taxable_sum2 :: "line_item2 list \<Rightarrow> real" where
  "taxable_sum2 items = sum_list (map amount2 (filter (\<lambda>li. taxable2 li = Some True) items))"

definition has_kind :: "string \<Rightarrow> line_item \<Rightarrow> bool" where
  "has_kind k li = (kind li = k)"

text \<open>Removing the metal item from a list of items, as the caller does for the shared items.\<close>

definition shared :: "line_item list \<Rightarrow> line_item list" where
  "shared items = filter (\<lambda>li. kind li \<noteq> ''metal'') items"

text \<open>
  A trim line of the per-metal engine qualifies when its quantity and its unit price are
  positive; the specified aggregate is the sum of quantity times unit price over the
  qualifying lines.
\<close>

definition trim_qualifies :: "trim_stone_row \<Rightarrow> bool" where
  "trim_qualifies row = (0 < int_or0 (ts_qty row) \<and> 0 < float_or0 (ts_price_each row))"

definition trim_spec_sum :: "trim_stone_row list \<Rightarrow> real" where
  "trim_spec_sum rows =
     sum_list (map (\<lambda>row. of_int (int_or0 (ts_qty row)) * float_or0 (ts_price_each row))
                 (filter trim_qualifies rows))"

text \<open>
  A trim line of the size-table engine qualifies when its quantity is positive and its
  size has a row in the table; its unit price is the carat weight of one stone times the
  price per carat (the override of the line when there is one, the table's otherwise).
\<close>

definition trim2_qualifies :: "trim_table_row list \<Rightarrow> trim_item \<Rightarrow> bool" where
  "trim2_qualifies tbl item =
     (0 < int_or0 (ti_qty item) \<and> trim_row_for_mm tbl (ti_mm item) \<noteq> None)"

definition trim2_unit_price :: "trim_table_row list \<Rightarrow> trim_item \<Rightarrow> real" where
  "trim2_unit_price tbl item =
     (case trim_row_for_mm tbl (ti_mm item) of
        None \<Rightarrow> 0
      | Some row \<Rightarrow>
          tr_ct_each row *
          (if float_or0 (ti_retail_per_ct_override item) \<noteq> 0
           then float_or0 (ti_retail_per_ct_override item) else tr_retail_per_ct row))"

definition trim2_spec_sum :: "trim_table_row list \<Rightarrow> trim_item list \<Rightarrow> real" where
  "trim2_spec_sum tbl items =
     sum_list (map (\<lambda>item. of_int (int_or0 (ti_qty item)) * trim2_unit_price tbl item)
                 (filter (trim2_qualifies tbl) items))"

text \<open>
  The amount of the centre stone in \<^verbatim>\<open>compute_quote\<close>: the variable \<^verbatim>\<open>center_amount\<close>
  (\<^verbatim>\<open>price\<close> for a custom line item) that the emission test compares with \<open>0\<close>.
\<close>

definition center2_amount :: "center \<Rightarrow> real" where
  "center2_amount c =
     (let ctype = (case c_type c of None \<Rightarrow> ''None'' | Some t \<Rightarrow> t)
      in if ctype = ''Lab diamond (price/ct by range)''
         then float_or0 (c_ct c) * float_or0 (c_price_per_ct c)
         else if ctype = ''Natural diamond (cost x markup)''
         then float_or0 (c_cost c) * float_or0 (c_markup c)
         else if ctype = ''Colored / calibrated (cost x markup)''
         then float_or0 (c_cost c) * float_or0 (c_markup c)
         else if ctype = ''Custom line item'' then float_or0 (c_price c)
         else 0)"

text \<open>The unit of a weight is a gram unit when, stripped and lowered, it starts with \<open>gram\<close>.\<close>

definition gram_unit :: "string \<Rightarrow> bool" where
  "gram_unit u = startswith (lower (strip (if u = [] then ''DWT'' else u))) ''gram''"

section \<open>Evaluation and projection lemmas\<close>

lemmas eval_common =
  Let_def float_or0_def bool_get_def int_or0_def str_or_empty_def py_sum_def py_round_def
  strip_def lower_def upper_def startswith_def is_space_def lower_char_def upper_char_def
  is_plat_def

lemmas eval_defs =
  compute_quote_for_metal_def assemble_def cad_items_def metal_items_def center_items_def
  trim_items_def center_labor_items_def trim_labor_items_def charge_items_def add_charge_def
  weight_to_dwt_def GRAMS_TO_DWT_def round_money_def round_nearest_5_def
  shop_settings_def cad_metal_core_def empty_core_def named_free_stone_core_def
  credit_stone_core_def two_trim_core_def

lemmas eval_defs2 =
  compute_quote_def assemble2_def totals2_def cad2_items_def metal2_items_def center2_items_def
  trim2_items_def labor2_items_def style_items_def misc2_items_def fee_items_def item2_def
  round_money2_def round_to_5_def rate_for_style_def
  shop_settings2_def no_fees_def no_labor_rates_def no_center_def free_ruby_def no_trim_def
  one_trim_def no_labor_def no_misc_def taxable_sum2_def

lemma py_sum_sum_list: "py_sum xs = sum_list xs"
proof -
  have "foldl (+) a xs = a + sum_list xs" for a :: real
    by (induction xs arbitrary: a) simp_all
  then show ?thesis by (simp add: py_sum_def)
qed

lemma line_items_cqfm: "line_items (compute_quote_for_metal st qc mk) = assemble st qc mk"
  by (simp add: compute_quote_for_metal_def Let_def)

lemma subtotal_cqfm:
  "subtotal_pre_tax (compute_quote_for_metal st qc mk) = sum_list (map amount (assemble st qc mk))"
  by (simp add: compute_quote_for_metal_def Let_def py_sum_sum_list)

lemma taxable_subtotal_cqfm:
  "taxable_subtotal_pre_tax (compute_quote_for_metal st qc mk) = taxable_sum (assemble st qc mk)"
  by (simp add: compute_quote_for_metal_def Let_def py_sum_sum_list taxable_sum_def)

lemma tax_cqfm:
  "tax (compute_quote_for_metal st qc mk)
     = taxable_sum (assemble st qc mk) * float_or0 (tax_rate st)"
  by (simp add: compute_quote_for_metal_def Let_def py_sum_sum_list taxable_sum_def)

lemma compute_quote_Inr:
  "compute_quote st fee mt w u pc c t lb m = Inr q \<Longrightarrow>
     \<exists>items. assemble2 st fee mt w u pc c t lb m = Inr items \<and> q = totals2 st items"
  by (auto simp: compute_quote_def split: sum.splits)

lemma totals2_fields:
  "q2_line_items (totals2 st items) = items"
  "q2_subtotal (totals2 st items) = sum_list (map amount2 items)"
  "q2_tax (totals2 st items)
     = round_money2 st (sum_list (map amount2 items) * float_or0 (s2_tax_rate st))"
  by (simp_all add: totals2_def Let_def py_sum_sum_list)

section \<open>Totals\<close>

text \<open>
  C4. In both engines the pre-tax subtotal of the computed quote is the sum of the amounts
  of the emitted line items: nothing is added or removed between the assembly of the
  items and the subtotal. For \<^verbatim>\<open>compute_quote\<close> the statement is about every quote it
  returns.
\<close>

theorem subtotal_is_sum_of_line_items:
  "subtotal_pre_tax (compute_quote_for_metal st qc mk)
     = sum_list (map amount (line_items (compute_quote_for_metal st qc mk)))
   \<and> (\<forall>q. compute_quote st2 fee mt w u pc c t lb m = Inr q
          \<longrightarrow> q2_subtotal q = sum_list (map amount2 (q2_line_items q)))"
  by (auto simp: subtotal_cqfm line_items_cqfm totals2_fields dest!: compute_quote_Inr)

text \<open>
  C4, at concrete inputs: a CAD fee and ten pennyweight of gold in the per-metal engine
  (items 150 and 1200, subtotal 1350); a CAD fee and one trim line in the size-table
  engine (items 10 and 2, subtotal 12), where \<^verbatim>\<open>compute_quote\<close> does return a quote.
\<close>

theorem subtotal_is_sum_of_line_items_witness:
  "subtotal_pre_tax (compute_quote_for_metal shop_settings cad_metal_core ''14K Yellow'')
     = 150 + 1200
   \<and> map amount (line_items (compute_quote_for_metal shop_settings cad_metal_core ''14K Yellow''))
       = [150, 1200]
   \<and> (case compute_quote shop_settings2 10 [] 0 [] False no_center one_trim no_labor no_misc of
         Inl e \<Rightarrow> False
       | Inr q \<Rightarrow> map amount2 (q2_line_items q) = [10, 2] \<and> q2_subtotal q = 12)"
  using subtotal_is_sum_of_line_items [of shop_settings cad_metal_core "''14K Yellow''"
      shop_settings2 10 "[]" 0 "[]" False no_center one_trim no_labor no_misc]
  by (simp add: eval_common eval_defs eval_defs2)

lemma filter_all_taxable2:
  "list_all (\<lambda>li. taxable2 li = Some True) items \<Longrightarrow>
     taxable_sum2 items = sum_list (map amount2 items)"
  by (induction items) (simp_all add: taxable_sum2_def)

text \<open>
  C1, as the code has it. In \<^verbatim>\<open>compute_quote_for_metal\<close> the taxable subtotal is the sum of
  the amounts of the items flagged taxable, and the tax is that subtotal times the tax
  rate, unrounded. In \<^verbatim>\<open>compute_quote\<close> the tax goes through \<^verbatim>\<open>_round_money\<close> (the nearest
  dollar unless the settings choose another rule): on a quote all of whose items are
  flagged taxable, the tax is the rounded product of the taxable subtotal and the rate.
\<close>

theorem tax_from_taxable_subtotal:
  "taxable_subtotal_pre_tax (compute_quote_for_metal st qc mk)
     = taxable_sum (line_items (compute_quote_for_metal st qc mk))
   \<and> tax (compute_quote_for_metal st qc mk)
       = taxable_sum (line_items (compute_quote_for_metal st qc mk)) * float_or0 (tax_rate st)
   \<and> (\<forall>q. compute_quote st2 fee mt w u pc c t lb m = Inr q
          \<longrightarrow> list_all (\<lambda>li. taxable2 li = Some True) (q2_line_items q)
          \<longrightarrow> q2_tax q
                = round_money2 st2
                    (taxable_sum2 (q2_line_items q) * float_or0 (s2_tax_rate st2)))"
  by (auto simp: taxable_subtotal_cqfm tax_cqfm line_items_cqfm totals2_fields
      filter_all_taxable2 dest!: compute_quote_Inr)

text \<open>
  C1, at concrete inputs: taxable subtotal 1350 at 7 percent in the per-metal engine; in
  the size-table engine two taxable items of 10 and 2 at 25 percent give the tax 3.
\<close>

theorem tax_from_taxable_subtotal_witness:
  "tax (compute_quote_for_metal shop_settings cad_metal_core ''14K Yellow'') = 1350 * (7 / 100)
   \<and> (case compute_quote shop_settings2 10 [] 0 [] False no_center one_trim no_labor no_misc of
         Inl e \<Rightarrow> False
       | Inr q \<Rightarrow> list_all (\<lambda>li. taxable2 li = Some True) (q2_line_items q)
                 \<and> taxable_sum2 (q2_line_items q) = 12 \<and> q2_tax q = 3)"
  using tax_from_taxable_subtotal [of shop_settings cad_metal_core "''14K Yellow''"
      shop_settings2 10 "[]" 0 "[]" False no_center one_trim no_labor no_misc]
  by (simp add: eval_common eval_defs eval_defs2)

text \<open>
  C1 as stated fails for \<^verbatim>\<open>compute_quote\<close>: with the default rounding rule, a CAD fee of
  10 (taxable) and a tax rate of 25 percent, the taxable subtotal times the rate is 2.5
  and the tax of the quote is 2.
\<close>

theorem compute_quote_tax_counterexample:
  "(case compute_quote shop_settings2 10 [] 0 [] False no_center no_trim no_labor no_misc of
      Inl e \<Rightarrow> False
    | Inr q \<Rightarrow> q2_tax q = 2
              \<and> taxable_sum2 (q2_line_items q) * float_or0 (s2_tax_rate shop_settings2) = 5 / 2)"
  by (simp add: eval_common eval_defs2)

text \<open>
  C3. A quote whose items are a taxable CAD fee of 150 and a taxable metal line of 1200,
  under a tax rate of 0.07, a deposit rate of 0.5 and the rounding rule \<open>none\<close>, has
  subtotal 1350, taxable subtotal 1350, tax 94.50, total 1444.50 and deposit 675; the
  deposit is the pre-tax subtotal times the deposit rate and the total is not rounded.
\<close>

theorem scenario_cad_and_metal:
  assumes "line_items (compute_quote_for_metal st qc mk) = [c, m]"
    and "kind c = ''cad''" and "amount c = 150" and "taxable c"
    and "kind m = ''metal''" and "amount m = 1200" and "taxable m"
    and "tax_rate st = Some 0.07" and "deposit_rate st = Some 0.5"
    and "rounding st = Some ''none''"
  shows "subtotal_pre_tax (compute_quote_for_metal st qc mk) = 1350
       \<and> taxable_subtotal_pre_tax (compute_quote_for_metal st qc mk) = 1350
       \<and> tax (compute_quote_for_metal st qc mk) = 94.5
       \<and> total_with_tax (compute_quote_for_metal st qc mk) = 1444.5
       \<and> deposit (compute_quote_for_metal st qc mk) = 675
       \<and> deposit (compute_quote_for_metal st qc mk)
           = subtotal_pre_tax (compute_quote_for_metal st qc mk) * 0.5
       \<and> rounded_subtotal_pre_tax (compute_quote_for_metal st qc mk) = 1350"
proof -
  from assms(1) have items: "assemble st qc mk = [c, m]"
    by (simp add: line_items_cqfm)
  have none: "round_money x ''none'' = x" for x
    by (simp add: round_money_def eval_common)
  show ?thesis
    using assms(3,4,6-10)
    by (simp add: compute_quote_for_metal_def Let_def items py_sum_def float_or0_def none)
qed

text \<open>
  C3, at a concrete input: a CAD fee of 150 and 10 pennyweight of a metal priced at 120
  per pennyweight.
\<close>

theorem scenario_cad_and_metal_witness:
  "line_items (compute_quote_for_metal shop_settings cad_metal_core ''14K Yellow'')
     = [\<lparr>label = ''CAD / design fee'', amount = 150, taxable = True, kind = ''cad'',
         meta = None, details = None\<rparr>,
        \<lparr>label = ''Metal (14K Yellow)'', amount = 1200, taxable = True, kind = ''metal'',
         meta = Some (MetalMeta 10 ''DWT'' 10 120), details = None\<rparr>]
   \<and> tax_rate shop_settings = Some 0.07 \<and> deposit_rate shop_settings = Some 0.5
   \<and> rounding shop_settings = Some ''none''
   \<and> tax (compute_quote_for_metal shop_settings cad_metal_core ''14K Yellow'') = 94.5
   \<and> total_with_tax (compute_quote_for_metal shop_settings cad_metal_core ''14K Yellow'')
       = 1444.5
   \<and> deposit (compute_quote_for_metal shop_settings cad_metal_core ''14K Yellow'') = 675"
proof -
  have items: "line_items (compute_quote_for_metal shop_settings cad_metal_core ''14K Yellow'')
     = [\<lparr>label = ''CAD / design fee'', amount = 150, taxable = True, kind = ''cad'',
         meta = None, details = None\<rparr>,
        \<lparr>label = ''Metal (14K Yellow)'', amount = 1200, taxable = True, kind = ''metal'',
         meta = Some (MetalMeta 10 ''DWT'' 10 120), details = None\<rparr>]"
    by (simp add: eval_common eval_defs)
  have st: "tax_rate shop_settings = Some 0.07" "deposit_rate shop_settings = Some 0.5"
    "rounding shop_settings = Some ''none''"
    by (simp_all add: shop_settings_def)
  from scenario_cad_and_metal [OF items _ _ _ _ _ _ st] items st show ?thesis
    by simp
qed

section \<open>Several metals\<close>

lemma shared_append: "shared (xs @ ys) = shared xs @ shared ys"
  by (simp add: shared_def)

lemma shared_cad: "shared (cad_items qc) = cad_items qc"
  by (simp add: shared_def cad_items_def Let_def)

lemma shared_metal: "shared (metal_items st qc mk) = []"
  by (simp add: shared_def metal_items_def Let_def)

lemma shared_center: "shared (center_items qc) = center_items qc"
  by (simp add: shared_def center_items_def Let_def)

lemma shared_trim: "shared (trim_items qc) = trim_items qc"
  by (simp add: shared_def trim_items_def Let_def split: prod.splits)

lemma shared_center_labor: "shared (center_labor_items qc) = center_labor_items qc"
  by (simp add: shared_def center_labor_items_def Let_def)

lemma shared_trim_labor: "shared (trim_labor_items qc) = trim_labor_items qc"
  by (simp add: shared_def trim_labor_items_def Let_def split: prod.splits)

lemma shared_charges: "shared (charge_items qc) = charge_items qc"
  by (simp add: shared_def charge_items_def add_charge_def Let_def)

lemma shared_assemble:
  "shared (assemble st qc mk) =
     cad_items qc @ center_items qc @ trim_items qc @ center_labor_items qc
     @ trim_labor_items qc @ charge_items qc"
  by (simp add: assemble_def shared_append shared_cad shared_metal shared_center shared_trim
      shared_center_labor shared_trim_labor shared_charges)

text \<open>
  C2. For fixed settings and job, the line items left after removing the metal item are
  the same list for any two metal keys: the metal key reaches no other item.
\<close>

theorem shared_items_independent_of_metal:
  "shared (line_items (compute_quote_for_metal st qc a))
     = shared (line_items (compute_quote_for_metal st qc b))"
  by (simp add: line_items_cqfm shared_assemble)

text \<open>
  C2, at a concrete input: gold and platinum quotes of the same job share the CAD item,
  and the platinum quote has a metal item that the removal takes out.
\<close>

theorem shared_items_independent_of_metal_witness:
  "shared (line_items (compute_quote_for_metal shop_settings cad_metal_core ''14K Yellow''))
     = shared (line_items (compute_quote_for_metal shop_settings cad_metal_core ''Platinum''))
   \<and> map kind (line_items (compute_quote_for_metal shop_settings cad_metal_core ''Platinum''))
       = [''cad'', ''metal'']
   \<and> map kind
       (shared (line_items (compute_quote_for_metal shop_settings cad_metal_core ''Platinum'')))
       = [''cad'']"
  using shared_items_independent_of_metal
    [of shop_settings cad_metal_core "''14K Yellow''" "''Platinum''"]
  by (simp add: eval_common eval_defs shared_def)

lemma multi_loop_map:
  "multi_loop st qc mks opts = opts @ map (compute_quote_for_metal st qc) mks"
  by (induction mks arbitrary: opts) simp_all

text \<open>
  C10. \<^verbatim>\<open>compute_quote_multi\<close> returns one option per metal key, in the order of the
  keys: the list has the length of the key list, and its \<open>i\<close>-th entry is
  \<^verbatim>\<open>compute_quote_for_metal\<close> at the \<open>i\<close>-th key. Nothing is skipped, repeated or moved.
\<close>

theorem compute_quote_multi_options:
  "options (compute_quote_multi st qc metal_keys)
     = map (compute_quote_for_metal st qc) metal_keys
   \<and> length (options (compute_quote_multi st qc metal_keys)) = length metal_keys
   \<and> (\<forall>i < length metal_keys.
        options (compute_quote_multi st qc metal_keys) ! i
          = compute_quote_for_metal st qc (metal_keys ! i))"
  by (simp add: compute_quote_multi_def multi_loop_map)

text \<open>C10, at a concrete input: two keys give two options, the second for the second key.\<close>

theorem compute_quote_multi_options_witness:
  "length (options (compute_quote_multi shop_settings cad_metal_core
             [''14K Yellow'', ''Platinum''])) = 2
   \<and> options (compute_quote_multi shop_settings cad_metal_core [''14K Yellow'', ''Platinum'']) ! 1
       = compute_quote_for_metal shop_settings cad_metal_core ''Platinum''
   \<and> map q_metal_key
       (options (compute_quote_multi shop_settings cad_metal_core [''14K Yellow'', ''Platinum'']))
       = [''14K Yellow'', ''Platinum'']"
  using compute_quote_multi_options
    [of shop_settings cad_metal_core "[''14K Yellow'', ''Platinum'']"]
  by (simp add: compute_quote_for_metal_def Let_def)

section \<open>Taxable and pre-tax subtotal\<close>

lemma taxable_sum_split:
  "sum_list (map amount xs)
     = taxable_sum xs + sum_list (map amount (filter (\<lambda>li. \<not> taxable li) xs))"
  by (induction xs) (simp_all add: taxable_sum_def)

lemma taxable_sum_le_iff:
  assumes "\<forall>li \<in> set xs. 0 \<le> amount li"
  shows "taxable_sum xs \<le> sum_list (map amount xs)
       \<and> (taxable_sum xs = sum_list (map amount xs)
            \<longleftrightarrow> (\<forall>li \<in> set xs. taxable li \<or> amount li = 0))"
proof -
  let ?rest = "map amount (filter (\<lambda>li. \<not> taxable li) xs)"
  have nonneg: "\<forall>a \<in> set ?rest. 0 \<le> a"
    using assms by auto
  then have ge: "0 \<le> sum_list ?rest"
    by (intro sum_list_nonneg) blast
  have zero: "sum_list ?rest = 0 \<longleftrightarrow> (\<forall>a \<in> set ?rest. a = 0)"
    using nonneg by (intro sum_list_nonneg_eq_0_iff) blast
  have "(\<forall>a \<in> set ?rest. a = 0) \<longleftrightarrow> (\<forall>li \<in> set xs. taxable li \<or> amount li = 0)"
    by auto
  with ge zero taxable_sum_split [of xs] show ?thesis
    by auto
qed

lemma assemble_amount_nonneg:
  assumes "0 \<le> float_or0 (metals_retail_per_dwt st mk)"
    and "0 \<le> float_or0 (platinum_density_ratio st)"
    and "0 \<le> float_or0 (platinum_extra_fee st)"
    and "0 \<le> float_or0 (center_stone_price qc)"
  shows "\<forall>li \<in> set (assemble st qc mk). 0 \<le> amount li"
proof -
  have cad: "\<forall>li \<in> set (cad_items qc). 0 \<le> amount li"
    by (simp add: cad_items_def Let_def)
  have metal: "\<forall>li \<in> set (metal_items st qc mk). 0 \<le> amount li"
    using assms(1-3) by (auto simp: metal_items_def Let_def)
  have center: "\<forall>li \<in> set (center_items qc). 0 \<le> amount li"
    using assms(4) by (simp add: center_items_def Let_def)
  have trim: "\<forall>li \<in> set (trim_items qc). 0 \<le> amount li"
    by (auto simp: trim_items_def Let_def split: prod.splits)
  have cl: "\<forall>li \<in> set (center_labor_items qc). 0 \<le> amount li"
    by (simp add: center_labor_items_def Let_def)
  have tl: "\<forall>li \<in> set (trim_labor_items qc). 0 \<le> amount li"
    by (auto simp: trim_labor_items_def Let_def split: prod.splits)
  have ch: "\<forall>li \<in> set (charge_items qc). 0 \<le> amount li"
    by (auto simp: charge_items_def add_charge_def Let_def)
  from cad metal center trim cl tl ch show ?thesis
    by (auto simp: assemble_def)
qed

text \<open>
  C5, as the code has it. When the rate of the metal, the platinum ratio, the platinum fee
  and the price of the centre stone are not negative, the taxable subtotal of
  \<^verbatim>\<open>compute_quote_for_metal\<close> is at most the pre-tax subtotal, and the two are equal if
  and only if every emitted line item is taxable or has the amount \<open>0\<close>.
\<close>

theorem taxable_subtotal_le_subtotal:
  assumes "0 \<le> float_or0 (metals_retail_per_dwt st mk)"
    and "0 \<le> float_or0 (platinum_density_ratio st)"
    and "0 \<le> float_or0 (platinum_extra_fee st)"
    and "0 \<le> float_or0 (center_stone_price qc)"
  shows "taxable_subtotal_pre_tax (compute_quote_for_metal st qc mk)
           \<le> subtotal_pre_tax (compute_quote_for_metal st qc mk)
       \<and> (taxable_subtotal_pre_tax (compute_quote_for_metal st qc mk)
            = subtotal_pre_tax (compute_quote_for_metal st qc mk)
          \<longleftrightarrow> (\<forall>li \<in> set (line_items (compute_quote_for_metal st qc mk)).
                 taxable li \<or> amount li = 0))"
  using taxable_sum_le_iff [OF assemble_amount_nonneg [OF assms]]
  by (simp add: taxable_subtotal_cqfm subtotal_cqfm line_items_cqfm)

text \<open>
  C5, at a concrete input: a named centre stone of price \<open>0\<close> that is not taxable. The
  two subtotals are equal and the only item has the amount \<open>0\<close>.
\<close>

theorem taxable_subtotal_le_subtotal_witness:
  "0 \<le> float_or0 (metals_retail_per_dwt shop_settings ''Platinum'')
   \<and> 0 \<le> float_or0 (platinum_density_ratio shop_settings)
   \<and> 0 \<le> float_or0 (platinum_extra_fee shop_settings)
   \<and> 0 \<le> float_or0 (center_stone_price named_free_stone_core)
   \<and> taxable_subtotal_pre_tax (compute_quote_for_metal shop_settings named_free_stone_core ''Platinum'')
       = subtotal_pre_tax (compute_quote_for_metal shop_settings named_free_stone_core ''Platinum'')
   \<and> list_all (\<lambda>li. taxable li \<or> amount li = 0)
       (line_items (compute_quote_for_metal shop_settings named_free_stone_core ''Platinum''))"
proof -
  have h: "0 \<le> float_or0 (metals_retail_per_dwt shop_settings ''Platinum'')"
    "0 \<le> float_or0 (platinum_density_ratio shop_settings)"
    "0 \<le> float_or0 (platinum_extra_fee shop_settings)"
    "0 \<le> float_or0 (center_stone_price named_free_stone_core)"
    by (simp_all add: eval_common eval_defs)
  from taxable_subtotal_le_subtotal [OF h] h show ?thesis
    by (simp add: list_all_iff eval_common eval_defs)
qed

text \<open>
  C5 as stated fails. For the named, untaxed centre stone of price \<open>0\<close> the two subtotals
  are equal although an item is not taxable; and for an untaxed centre stone with a
  negative price beside a CAD fee the taxable subtotal (150) exceeds the subtotal (50).
\<close>

theorem taxable_equality_counterexample:
  "taxable_subtotal_pre_tax (compute_quote_for_metal shop_settings named_free_stone_core ''14K Yellow'')
     = subtotal_pre_tax (compute_quote_for_metal shop_settings named_free_stone_core ''14K Yellow'')
   \<and> \<not> list_all taxable
         (line_items (compute_quote_for_metal shop_settings named_free_stone_core ''14K Yellow''))
   \<and> \<not> taxable_subtotal_pre_tax (compute_quote_for_metal shop_settings credit_stone_core ''14K Yellow'')
         \<le> subtotal_pre_tax (compute_quote_for_metal shop_settings credit_stone_core ''14K Yellow'')"
  by (simp add: eval_common eval_defs)

section \<open>Weight and the metal line\<close>

lemma has_kind_metal_assemble:
  "filter (has_kind ''metal'') (assemble st qc mk) = metal_items st qc mk"
  by (simp add: assemble_def has_kind_def cad_items_def metal_items_def center_items_def
      trim_items_def center_labor_items_def trim_labor_items_def charge_items_def add_charge_def
      Let_def split: prod.splits)

text \<open>
  C6, as the code has it. \<^verbatim>\<open>weight_to_dwt\<close> returns the value unchanged unless the unit is
  a gram unit, and the value times 0.643 when it is; a negative value stays negative (it
  is not replaced by \<open>0\<close>). The per-metal engine emits no metal item when the converted
  weight, or the weight itself, is not positive; \<^verbatim>\<open>compute_quote\<close> emits no metal item,
  and raises nothing in its metal block, when the weight is not positive.
\<close>

theorem weight_to_dwt_cases:
  "(\<not> gram_unit u \<longrightarrow> weight_to_dwt w u = w)
   \<and> (gram_unit u \<longrightarrow> weight_to_dwt w u = w * 0.643)
   \<and> (w < 0 \<longrightarrow> weight_to_dwt w u < 0)
   \<and> (weight_to_dwt (float_or0 (metal_weight_value qc))
         (case metal_weight_unit qc of None \<Rightarrow> ''DWT'' | Some x \<Rightarrow> x) \<le> 0
        \<longrightarrow> filter (has_kind ''metal'') (line_items (compute_quote_for_metal st qc mk)) = [])
   \<and> (float_or0 (metal_weight_value qc) \<le> 0
        \<longrightarrow> filter (has_kind ''metal'') (line_items (compute_quote_for_metal st qc mk)) = [])
   \<and> (w \<le> 0 \<longrightarrow> metal2_items st2 mt w u2 pc = Inr [])"
proof -
  have neg: "w' \<le> 0 \<Longrightarrow> weight_to_dwt w' u' \<le> 0" for w' u'
    by (simp add: weight_to_dwt_def GRAMS_TO_DWT_def Let_def mult_le_0_iff)
  have a: "weight_to_dwt (float_or0 (metal_weight_value qc))
         (case metal_weight_unit qc of None \<Rightarrow> ''DWT'' | Some x \<Rightarrow> x) \<le> 0
        \<Longrightarrow> filter (has_kind ''metal'') (line_items (compute_quote_for_metal st qc mk)) = []"
    by (simp add: line_items_cqfm has_kind_metal_assemble metal_items_def Let_def)
  have b: "float_or0 (metal_weight_value qc) \<le> 0
        \<Longrightarrow> filter (has_kind ''metal'') (line_items (compute_quote_for_metal st qc mk)) = []"
    using a neg by blast
  have c: "w < 0 \<Longrightarrow> weight_to_dwt w u < 0"
    by (simp add: weight_to_dwt_def GRAMS_TO_DWT_def Let_def mult_less_0_iff)
  have d: "w \<le> 0 \<Longrightarrow> metal2_items st2 mt w u2 pc = Inr []"
    by (simp add: metal2_items_def)
  show ?thesis
    using a b c d by (simp add: weight_to_dwt_def gram_unit_def GRAMS_TO_DWT_def Let_def)
qed

text \<open>
  C6, at concrete inputs: 10 pennyweight, 10 grams (with a leading blank and a capital
  letter in the unit), a weight of \<open>-5\<close>, and a job without a weight.
\<close>

theorem weight_to_dwt_cases_witness:
  "\<not> gram_unit ''DWT'' \<and> weight_to_dwt 10 ''DWT'' = 10
   \<and> gram_unit '' Grams'' \<and> weight_to_dwt 10 '' Grams'' = 6.43
   \<and> weight_to_dwt (- 5) ''DWT'' < 0
   \<and> float_or0 (metal_weight_value named_free_stone_core) \<le> 0
   \<and> filter (has_kind ''metal'')
        (line_items (compute_quote_for_metal shop_settings named_free_stone_core ''Platinum'')) = []
   \<and> metal2_items shop_settings2 ''14K Yellow'' (- 5) ''Grams'' False = Inr []"
  using weight_to_dwt_cases [of "''DWT''" 10 named_free_stone_core shop_settings "''Platinum''"
      shop_settings2 "''14K Yellow''" "''Grams''" False]
    weight_to_dwt_cases [of "'' Grams''" 10 named_free_stone_core shop_settings "''Platinum''"
      shop_settings2 "''14K Yellow''" "''Grams''" False]
    weight_to_dwt_cases [of "''DWT''" "- 5" named_free_stone_core shop_settings "''Platinum''"
      shop_settings2 "''14K Yellow''" "''Grams''" False]
  by (simp add: gram_unit_def eval_common eval_defs)

text \<open>
  C6 as stated fails: on the negative weight \<open>-5\<close> in pennyweight \<^verbatim>\<open>weight_to_dwt\<close>
  returns \<open>-5\<close>, not \<open>0\<close>.
\<close>

theorem weight_to_dwt_negative_counterexample:
  "weight_to_dwt (- 5) ''DWT'' = - 5 \<and> weight_to_dwt (- 5) ''DWT'' \<noteq> 0"
  by (simp add: eval_common eval_defs)

text \<open>
  C7. With a platinum density ratio of 1.38 and a weight of 10 pennyweight, the metal
  item of a platinum key records the computed weight 13.8 and its amount is 13.8 times
  the rate of the key (plus the flat platinum fee when the job asks for it); for any
  other key the computed weight stays 10 and the amount is 10 times the rate. The ratio
  is applied to the weight, before the rate, and only for a platinum key.
\<close>

theorem platinum_scaling:
  assumes "platinum_density_ratio st = Some 1.38"
    and "metal_weight_value qc = Some 10"
    and "metal_weight_unit qc = Some ''DWT''"
  shows "filter (has_kind ''metal'') (line_items (compute_quote_for_metal st qc mk))
     = [\<lparr>label = ''Metal ('' @ mk @ '')'',
         amount = (if is_plat mk then 13.8 else 10) * float_or0 (metals_retail_per_dwt st mk)
                  + (if is_plat mk \<and> bool_get (add_platinum_extra_fee qc) True
                     then float_or0 (platinum_extra_fee st) else 0),
         taxable = bool_get (tax_metal qc) True, kind = ''metal'',
         meta = Some (MetalMeta 10 ''DWT'' (if is_plat mk then 13.8 else 10)
                        (float_or0 (metals_retail_per_dwt st mk))),
         details = None\<rparr>]"
proof -
  have w: "weight_to_dwt 10 ''DWT'' = 10"
    by (simp add: weight_to_dwt_def eval_common)
  show ?thesis
    using assms
    by (simp add: line_items_cqfm has_kind_metal_assemble metal_items_def Let_def w float_or0_def)
qed

text \<open>
  C7, at concrete inputs: platinum at 200 per pennyweight with a fee of 50, the same
  without the fee, and gold at 120 per pennyweight.
\<close>

theorem platinum_scaling_witness:
  "platinum_density_ratio shop_settings = Some 1.38
   \<and> metal_weight_value cad_metal_core = Some 10
   \<and> metal_weight_unit cad_metal_core = Some ''DWT''
   \<and> is_plat ''Platinum'' \<and> \<not> is_plat ''14K Yellow''
   \<and> map meta (filter (has_kind ''metal'')
        (line_items (compute_quote_for_metal shop_settings cad_metal_core ''Platinum'')))
       = [Some (MetalMeta 10 ''DWT'' 13.8 200)]
   \<and> map amount (filter (has_kind ''metal'')
        (line_items (compute_quote_for_metal shop_settings cad_metal_core ''Platinum'')))
       = [13.8 * 200 + 50]
   \<and> map amount (filter (has_kind ''metal'')
        (line_items (compute_quote_for_metal shop_settings
           (cad_metal_core\<lparr>add_platinum_extra_fee := Some False\<rparr>) ''Platinum'')))
       = [13.8 * 200]
   \<and> map amount (filter (has_kind ''metal'')
        (line_items (compute_quote_for_metal shop_settings cad_metal_core ''14K Yellow'')))
       = [10 * 120]"
proof -
  have h: "platinum_density_ratio shop_settings = Some 1.38"
    "metal_weight_value cad_metal_core = Some 10"
    "metal_weight_unit cad_metal_core = Some ''DWT''"
    "metal_weight_value (cad_metal_core\<lparr>add_platinum_extra_fee := Some False\<rparr>) = Some 10"
    "metal_weight_unit (cad_metal_core\<lparr>add_platinum_extra_fee := Some False\<rparr>) = Some ''DWT''"
    by (simp_all add: shop_settings_def cad_metal_core_def empty_core_def)
  have p: "is_plat ''Platinum''" "\<not> is_plat ''14K Yellow''"
    by (simp_all add: eval_common)
  from platinum_scaling [OF h(1-3), of "''Platinum''"]
    platinum_scaling [OF h(1-3), of "''14K Yellow''"]
    platinum_scaling [OF h(1,4,5), of "''Platinum''"]
    h p
  show ?thesis
    by (simp add: shop_settings_def float_or0_def bool_get_def cad_metal_core_def empty_core_def)
qed

section \<open>Stones\<close>

lemma has_kind_center_assemble:
  "filter (has_kind ''center_stone'') (assemble st qc mk) = center_items qc"
  by (simp add: assemble_def has_kind_def cad_items_def metal_items_def center_items_def
      trim_items_def center_labor_items_def trim_labor_items_def charge_items_def add_charge_def
      Let_def split: prod.splits)

lemma assemble2_Inr:
  "assemble2 st fee mt w u pc c t lb m = Inr items \<Longrightarrow>
     \<exists>metal trimmed labored finishing.
       metal2_items st mt w u pc = Inr metal \<and> trim2_items st t = Inr trimmed
       \<and> labor2_items st lb = Inr labored \<and> misc2_items st m = Inr finishing
       \<and> items = cad2_items st fee @ metal @ center2_items st c @ trimmed @ labored @ finishing"
  by (auto simp: assemble2_def split: sum.splits)

text \<open>
  C8, as the code has it. \<^verbatim>\<open>compute_quote_for_metal\<close> emits a centre-stone item if and only
  if the price is positive or the stripped description is not empty, and the amount of
  the item is the price. \<^verbatim>\<open>compute_quote\<close> emits a centre-stone item if and only if the
  amount is positive, whatever the label; its amount is the rounded centre amount, and
  the block sits inside the items of every quote that is returned.
\<close>

theorem center_stone_emission:
  "(list_ex (has_kind ''center_stone'') (line_items (compute_quote_for_metal st qc mk))
      \<longleftrightarrow> 0 < float_or0 (center_stone_price qc)
          \<or> strip (str_or_empty (center_stone_desc qc)) \<noteq> [])
   \<and> map amount (filter (has_kind ''center_stone'') (line_items (compute_quote_for_metal st qc mk)))
       = (if 0 < float_or0 (center_stone_price qc)
             \<or> strip (str_or_empty (center_stone_desc qc)) \<noteq> []
          then [float_or0 (center_stone_price qc)] else [])
   \<and> (center2_items st2 c \<noteq> [] \<longleftrightarrow> 0 < center2_amount c)
   \<and> map amount2 (center2_items st2 c)
       = (if 0 < center2_amount c then [round_money2 st2 (center2_amount c)] else [])
   \<and> (\<forall>q. compute_quote st2 fee mt w u pc c t lb m = Inr q
          \<longrightarrow> (\<exists>before after. q2_line_items q = before @ center2_items st2 c @ after))"
proof -
  have one: "list_ex (has_kind ''center_stone'') (line_items (compute_quote_for_metal st qc mk))
      \<longleftrightarrow> 0 < float_or0 (center_stone_price qc)
          \<or> strip (str_or_empty (center_stone_desc qc)) \<noteq> []"
  proof -
    have "list_ex (has_kind ''center_stone'') xs \<longleftrightarrow> filter (has_kind ''center_stone'') xs \<noteq> []"
      for xs :: "line_item list"
      by (simp add: list_ex_iff filter_empty_conv)
    then show ?thesis
      by (auto simp add: line_items_cqfm has_kind_center_assemble center_items_def Let_def)
  qed
  have two: "map amount (filter (has_kind ''center_stone'') (line_items (compute_quote_for_metal st qc mk)))
       = (if 0 < float_or0 (center_stone_price qc)
             \<or> strip (str_or_empty (center_stone_desc qc)) \<noteq> []
          then [float_or0 (center_stone_price qc)] else [])"
    by (auto simp add: line_items_cqfm has_kind_center_assemble center_items_def Let_def)
  have three: "center2_items st2 c \<noteq> [] \<longleftrightarrow> 0 < center2_amount c"
    by (simp add: center2_items_def center2_amount_def Let_def)
  have four: "map amount2 (center2_items st2 c)
       = (if 0 < center2_amount c then [round_money2 st2 (center2_amount c)] else [])"
    by (simp add: center2_items_def center2_amount_def Let_def item2_def)
  have five: "\<forall>q. compute_quote st2 fee mt w u pc c t lb m = Inr q
          \<longrightarrow> (\<exists>before after. q2_line_items q = before @ center2_items st2 c @ after)"
  proof (intro allI impI)
    fix q
    assume "compute_quote st2 fee mt w u pc c t lb m = Inr q"
    then obtain items where a: "assemble2 st2 fee mt w u pc c t lb m = Inr items"
      and q: "q = totals2 st2 items"
      using compute_quote_Inr by blast
    from assemble2_Inr [OF a] obtain metal trimmed labored finishing where
      "items = cad2_items st2 fee @ metal @ center2_items st2 c @ trimmed @ labored @ finishing"
      by blast
    then have "q2_line_items q
      = (cad2_items st2 fee @ metal) @ center2_items st2 c @ (trimmed @ labored @ finishing)"
      by (simp add: q totals2_fields)
    then show "\<exists>before after. q2_line_items q = before @ center2_items st2 c @ after"
      by blast
  qed
  from one two three four five show ?thesis
    by blast
qed

text \<open>
  C8, at concrete inputs: in the per-metal engine a stone named Ruby of price \<open>0\<close> is
  emitted and a stone whose description is blank is not; in the size-table engine a
  custom stone labelled Ruby is not emitted at price \<open>0\<close> and is emitted at price 80.
\<close>

theorem center_stone_emission_witness:
  "strip (str_or_empty (center_stone_desc named_free_stone_core)) \<noteq> []
   \<and> \<not> 0 < float_or0 (center_stone_price named_free_stone_core)
   \<and> list_ex (has_kind ''center_stone'')
       (line_items (compute_quote_for_metal shop_settings named_free_stone_core ''14K Yellow''))
   \<and> \<not> list_ex (has_kind ''center_stone'')
       (line_items (compute_quote_for_metal shop_settings
          (empty_core\<lparr>center_stone_desc := Some ''   ''\<rparr>) ''14K Yellow''))
   \<and> \<not> 0 < center2_amount free_ruby \<and> center2_items shop_settings2 free_ruby = []
   \<and> map amount2 (center2_items shop_settings2 (free_ruby\<lparr>c_price := Some 80\<rparr>)) = [80]"
  using center_stone_emission [of shop_settings named_free_stone_core "''14K Yellow''"
      shop_settings2 free_ruby 0 "[]" 0 "[]" False no_trim no_labor no_misc]
    center_stone_emission [of shop_settings "empty_core\<lparr>center_stone_desc := Some ''   ''\<rparr>"
      "''14K Yellow''" shop_settings2 "free_ruby\<lparr>c_price := Some 80\<rparr>" 0 "[]" 0 "[]" False
      no_trim no_labor no_misc]
  by (simp add: center2_amount_def round_money2_def eval_common named_free_stone_core_def empty_core_def
       free_ruby_def no_center_def shop_settings2_def)

text \<open>
  C8 as stated fails for \<^verbatim>\<open>compute_quote\<close>: a custom centre stone labelled Ruby with the
  price \<open>0\<close> gives a quote without any line item.
\<close>

theorem compute_quote_named_free_stone_counterexample:
  "(case compute_quote shop_settings2 0 [] 0 [] False free_ruby no_trim no_labor no_misc of
      Inl e \<Rightarrow> False
    | Inr q \<Rightarrow> q2_line_items q = [])
   \<and> c_label free_ruby = Some ''Ruby'' \<and> center2_amount free_ruby = 0"
  by (simp add: eval_common eval_defs2 center2_amount_def)

lemma trim_loop_total: "fst (trim_loop rows (tot, dets)) = tot + trim_spec_sum rows"
proof (induction rows arbitrary: tot dets)
  case Nil
  then show ?case by (simp add: trim_spec_sum_def)
next
  case (Cons row rows)
  show ?case
  proof (cases "trim_qualifies row")
    case True
    then show ?thesis
      using Cons.IH by (simp add: trim_spec_sum_def trim_qualifies_def Let_def not_le)
  next
    case False
    then have "int_or0 (ts_qty row) \<le> 0 \<or> float_or0 (ts_price_each row) \<le> 0"
      by (auto simp: trim_qualifies_def)
    with False show ?thesis
      using Cons.IH by (simp add: trim_spec_sum_def Let_def)
  qed
qed

lemma has_kind_trim_assemble:
  "filter (has_kind ''trim_stones'') (assemble st qc mk) = trim_items qc"
  by (simp add: assemble_def has_kind_def cad_items_def metal_items_def center_items_def
      trim_items_def center_labor_items_def trim_labor_items_def charge_items_def add_charge_def
      Let_def split: prod.splits)

lemma trim_items_amount:
  "map amount (trim_items qc)
     = (if 0 < trim_spec_sum (trim_stones qc) then [trim_spec_sum (trim_stones qc)] else [])"
  using trim_loop_total [of "trim_stones qc" 0 "[]"]
  by (auto simp: trim_items_def Let_def split: prod.splits)

lemma trim2_loop_total:
  "s2_trim_table st = Some tbl \<Longrightarrow>
     \<exists>dets'. trim2_loop st items (tot, dets) = Inr (tot + trim2_spec_sum tbl items, dets')"
proof (induction items arbitrary: tot dets)
  case Nil
  then show ?case by (simp add: trim2_spec_sum_def)
next
  case (Cons item items)
  show ?case
  proof (cases "trim2_qualifies tbl item")
    case True
    then obtain row where row: "trim_row_for_mm tbl (ti_mm item) = Some row"
      by (auto simp: trim2_qualifies_def)
    let ?price = "of_int (int_or0 (ti_qty item)) * trim2_unit_price tbl item"
    let ?dets = "dets @ [(ti_mm item, int_or0 (ti_qty item),
                     tr_ct_each row * of_int (int_or0 (ti_qty item)),
                     (if float_or0 (ti_retail_per_ct_override item) \<noteq> 0
                      then float_or0 (ti_retail_per_ct_override item) else tr_retail_per_ct row),
                     ?price)]"
    from True row have step: "trim2_loop st (item # items) (tot, dets)
        = trim2_loop st items (tot + ?price, ?dets)"
      using Cons.prems
      by (simp add: trim2_qualifies_def trim2_unit_price_def Let_def not_le mult_ac)
    from True have sum: "trim2_spec_sum tbl (item # items) = ?price + trim2_spec_sum tbl items"
      by (simp add: trim2_spec_sum_def)
    from Cons.IH [OF Cons.prems, of "tot + ?price" ?dets] obtain dets' where
      "trim2_loop st items (tot + ?price, ?dets)
         = Inr (tot + ?price + trim2_spec_sum tbl items, dets')"
      by blast
    then have "trim2_loop st (item # items) (tot, dets)
         = Inr (tot + trim2_spec_sum tbl (item # items), dets')"
      by (simp only: step sum add.assoc)
    then show ?thesis
      by blast
  next
    case False
    then have sum: "trim2_spec_sum tbl (item # items) = trim2_spec_sum tbl items"
      by (simp add: trim2_spec_sum_def)
    from False have "trim2_loop st (item # items) (tot, dets) = trim2_loop st items (tot, dets)"
      using Cons.prems by (auto simp: trim2_qualifies_def Let_def not_less)
    with Cons.IH [OF Cons.prems] sum show ?thesis
      by simp
  qed
qed

lemma trim2_items_amount:
  assumes "s2_trim_table st = Some tbl"
  shows "\<exists>items. trim2_items st t = Inr items
     \<and> map amount2 items
       = (if bool_get (t_enabled t) False \<and> 0 < trim2_spec_sum tbl (t_items t)
          then [round_money2 st (trim2_spec_sum tbl (t_items t))] else [])"
proof -
  from trim2_loop_total [OF assms, of "t_items t" 0 "[]"]
  obtain dets' where "trim2_loop st (t_items t) (0, []) = Inr (trim2_spec_sum tbl (t_items t), dets')"
    by auto
  moreover have "trim2_spec_sum tbl [] = 0"
    by (simp add: trim2_spec_sum_def)
  ultimately show ?thesis
    by (auto simp: trim2_items_def)
qed

text \<open>
  C9, as the code has it. In \<^verbatim>\<open>compute_quote_for_metal\<close> the amount of the trim-stones
  item is the sum of quantity times unit price over the lines whose quantity and unit
  price are positive; no item is emitted when that sum is not positive, and no line
  raises. The two lines (3 at 40) and (0 at 999) aggregate to 120. In \<^verbatim>\<open>compute_quote\<close>,
  with a size table in the settings, the trim block raises nothing and the amount of its
  item is the sum over the lines of positive quantity with a row in the table, passed
  through \<^verbatim>\<open>_round_money\<close>; the item is emitted when trim stones are enabled and the sum
  is positive.
\<close>

theorem trim_stones_aggregate:
  "map amount (filter (has_kind ''trim_stones'') (line_items (compute_quote_for_metal st qc mk)))
     = (if 0 < trim_spec_sum (trim_stones qc) then [trim_spec_sum (trim_stones qc)] else [])
   \<and> (trim_stones qc = [\<lparr>ts_desc = d1, ts_qty = Some 3, ts_price_each = Some 40\<rparr>,
                         \<lparr>ts_desc = d2, ts_qty = Some 0, ts_price_each = Some 999\<rparr>]
        \<longrightarrow> map amount (filter (has_kind ''trim_stones'')
                          (line_items (compute_quote_for_metal st qc mk))) = [120])
   \<and> (s2_trim_table st2 = Some tbl
        \<longrightarrow> (\<exists>items. trim2_items st2 t = Inr items
               \<and> map amount2 items
                 = (if bool_get (t_enabled t) False \<and> 0 < trim2_spec_sum tbl (t_items t)
                    then [round_money2 st2 (trim2_spec_sum tbl (t_items t))] else [])))"
proof -
  have a: "map amount (filter (has_kind ''trim_stones'') (line_items (compute_quote_for_metal st qc mk)))
     = (if 0 < trim_spec_sum (trim_stones qc) then [trim_spec_sum (trim_stones qc)] else [])"
    by (simp add: line_items_cqfm has_kind_trim_assemble trim_items_amount)
  have "trim_spec_sum [\<lparr>ts_desc = d1, ts_qty = Some 3, ts_price_each = Some 40\<rparr>,
                         \<lparr>ts_desc = d2, ts_qty = Some 0, ts_price_each = Some 999\<rparr>] = 120"
    by (simp add: trim_spec_sum_def trim_qualifies_def int_or0_def float_or0_def)
  with a have b: "trim_stones qc = [\<lparr>ts_desc = d1, ts_qty = Some 3, ts_price_each = Some 40\<rparr>,
                         \<lparr>ts_desc = d2, ts_qty = Some 0, ts_price_each = Some 999\<rparr>]
        \<Longrightarrow> map amount (filter (has_kind ''trim_stones'')
                          (line_items (compute_quote_for_metal st qc mk))) = [120]"
    by simp
  from a b trim2_items_amount [of st2 tbl t] show ?thesis
    by blast
qed

text \<open>
  C9, at concrete inputs: the two lines of the scenario in the per-metal engine, and one
  line of one 2 mm stone (half a carat at 3 per carat) in the size-table engine.
\<close>

theorem trim_stones_aggregate_witness:
  "map amount (filter (has_kind ''trim_stones'')
     (line_items (compute_quote_for_metal shop_settings two_trim_core ''14K Yellow''))) = [120]
   \<and> trim_spec_sum (trim_stones two_trim_core) = 120
   \<and> s2_trim_table shop_settings2
       = Some [\<lparr>tr_mm = 2, tr_ct_each = 1 / 2, tr_retail_per_ct = 3\<rparr>]
   \<and> trim2_spec_sum [\<lparr>tr_mm = 2, tr_ct_each = 1 / 2, tr_retail_per_ct = 3\<rparr>] (t_items one_trim)
       = 3 / 2
   \<and> (case trim2_items shop_settings2 one_trim of Inl e \<Rightarrow> False
       | Inr items \<Rightarrow> map amount2 items = [2])"
  using trim_stones_aggregate [of shop_settings two_trim_core "''14K Yellow''" "Some ''melee''"
      "Some ''accent''" shop_settings2 "[\<lparr>tr_mm = 2, tr_ct_each = 1 / 2, tr_retail_per_ct = 3\<rparr>]"
      one_trim]
  by (simp add: eval_common eval_defs eval_defs2 trim_spec_sum_def trim_qualifies_def
      trim2_spec_sum_def trim2_qualifies_def trim2_unit_price_def)

text \<open>
  C9 as stated fails for \<^verbatim>\<open>compute_quote\<close>: one qualifying line with quantity 1 and unit
  price 1.5 sums to 1.5, and the trim-stones item of the quote has the amount 2.
\<close>

theorem compute_quote_trim_rounded_counterexample:
  "(case compute_quote shop_settings2 0 [] 0 [] False no_center one_trim no_labor no_misc of
      Inl e \<Rightarrow> False
    | Inr q \<Rightarrow> map label2 (q2_line_items q) = [Text ''Trim stones'']
              \<and> map amount2 (q2_line_items q) = [2])
   \<and> trim2_spec_sum [\<lparr>tr_mm = 2, tr_ct_each = 1 / 2, tr_retail_per_ct = 3\<rparr>] (t_items one_trim)
       = 3 / 2"
  by (simp add: eval_common eval_defs2 trim2_spec_sum_def trim2_qualifies_def
      trim2_unit_price_def)

section \<open>\<^verbatim>\<open>compute_quote\<close> returns\<close>

text \<open>
  With the fee table, the labour-rate table and the size table in the settings, and the
  metal priced in the metal table (or no positive weight), \<^verbatim>\<open>compute_quote\<close> raises
  nothing and returns a quote.
\<close>

lemma compute_quote_returns:
  assumes "s2_fees st = Some fees" and "s2_labor_rates st = Some lr"
    and "s2_trim_table st = Some tbl"
    and "w \<le> 0 \<or> (\<exists>metals cost. s2_metals st = Some metals \<and> metals mt = Some cost)"
  shows "\<exists>q. compute_quote st fee mt w u pc c t lb m = Inr q"
proof -
  have "\<exists>metal. metal2_items st mt w u pc = Inr metal"
    using assms(1,4) by (auto simp: metal2_items_def Let_def)
  then obtain metal where "metal2_items st mt w u pc = Inr metal"
    by blast
  moreover from trim2_items_amount [OF assms(3)] obtain trimmed where
    "trim2_items st t = Inr trimmed"
    by blast
  moreover from assms(2) obtain labored where "labor2_items st lb = Inr labored"
    by (simp add: labor2_items_def)
  moreover from assms(1) obtain finishing where "misc2_items st m = Inr finishing"
    by (simp add: misc2_items_def)
  ultimately show ?thesis
    by (simp add: compute_quote_def assemble2_def)
qed

text \<open>
  The job of the second end-to-end scenario in \<^verbatim>\<open>compute_quote\<close>: the same subtotal and
  tax, but this engine rounds the total to the nearest 5 and takes the deposit from the
  rounded total.
\<close>

lemma compute_quote_cad_and_metal:
  "compute_quote (shop_settings2\<lparr>s2_rounding := Some ''none'', s2_tax_rate := Some 0.07\<rparr>)
     150 ''14K Yellow'' 10 ''DWT'' False no_center no_trim no_labor no_misc
   = Inr \<lparr>q2_line_items =
            [item2 (Text ''CAD / design fee'') 150 (Some True),
             item2 (Text ''Metal (14K Yellow)'') 1200 (Some True)],
          q2_subtotal = 1350, q2_tax = 94.5, q2_total = 1445, q2_deposit = 720,
          q2_tax_rate = 0.07, q2_deposit_rate = 0.5, q2_raw_total = 1444.5\<rparr>"
  by (simp add: eval_common eval_defs2)

end
